theory Spec2Isabelle
  imports Main "HOL-Library.Word"
begin

section \<open>The allocation macros of myalloc.h\<close>

text \<open>
  The header \<^verbatim>\<open>myalloc.h\<close> defines four macros, \<^verbatim>\<open>MALLOC\<close>, \<^verbatim>\<open>CALLOC\<close>,
  \<^verbatim>\<open>REALLOC\<close> and \<^verbatim>\<open>FREE\<close>, twice: once under \<^verbatim>\<open>#ifdef MALLOCDEBUG\<close> (the build
  that prints a line per call) and once in the \<^verbatim>\<open>#else\<close> branch (the build that prints
  only when an allocation fails). This theory embeds the eight macro bodies as functions
  on an explicit program state, together with a model of the C library calls they make.
\<close>

subsection \<open>Program state\<close>

text \<open>
  A pointer is \<open>None\<close> (\<^verbatim>\<open>NULL\<close>) or the address of a region. The heap maps the address
  of every live region to its elements; the element type \<open>'a\<close> is the macro's \<^verbatim>\<open>type\<close>
  argument. Pointer variables are found by their spelling: the macros use the argument
  \<^verbatim>\<open>name\<close> both as the assigned lvalue and, through \<^verbatim>\<open>#name\<close>, as text. An
  argument is known by this spelling, the text that \<^verbatim>\<open>#\<close> yields, and is taken to hold
  no macro of the caller's, so that the compiler reads the same text.
  The event list records, in program order, what leaves the macro: each allocator call
  with its arguments, and each call of \<^verbatim>\<open>printf\<close>, as the text it prints
  (\<open>Printf\<close>) or, when a spelling pasted into the format holds a \<^verbatim>\<open>%\<close>, as
  \<open>Printf_undefined\<close>: the model does not say what such a call prints.
  The type \<open>'s\<close> of sizes is \<^verbatim>\<open>size_t\<close>; the macros use it at \<open>'w word\<close>.
\<close>

type_synonym addr = nat
type_synonym ptr = "addr option"
type_synonym c_int = "32 word"
type_synonym 'a heap = "addr \<rightharpoonup> 'a list"

datatype 's libc_call =
    Malloc_call 's
  | Calloc_call 's 's
  | Realloc_call ptr 's
  | Free_call ptr

datatype 's event = Libc "'s libc_call" | Printf string | Printf_undefined

record ('a, 's) state =
  vars :: "string \<Rightarrow> ptr"
  heap :: "'a heap"
  events :: "'s event list"

text \<open>
  A macro body runs to its closing brace (\<open>Return\<close>), calls \<^verbatim>\<open>exit\<close> (\<open>Exit\<close> with
  the status and the state at that moment), or does what the C standard leaves undefined:
  a read of an uninitialised variable, a store through a null or dangling pointer or
  past the end of a region, and \<^verbatim>\<open>realloc\<close> or \<^verbatim>\<open>free\<close> of a pointer that no live
  region has.
\<close>

datatype 'st outcome = Return 'st | Exit int 'st | Undefined

fun outcome_state :: "'st outcome \<Rightarrow> 'st option" where
  "outcome_state (Return st) = Some st"
| "outcome_state (Exit c st) = Some st"
| "outcome_state Undefined = None"

definition printf :: "string \<Rightarrow> ('a, 's) state \<Rightarrow> ('a, 's) state" where
  "printf s st = st\<lparr>events := events st @ [Printf s]\<rparr>"

text \<open>
  A call of \<^verbatim>\<open>printf\<close> whose output is \<open>Some\<close> text, or is not given. The
  model records the call either way and lets the macro go on to its next statement.
\<close>

definition said :: "string option \<Rightarrow> 's event" where
  "said text = (case text of Some s \<Rightarrow> Printf s | None \<Rightarrow> Printf_undefined)"

definition emit :: "string option \<Rightarrow> ('a, 's) state \<Rightarrow> ('a, 's) state" where
  "emit text st = st\<lparr>events := events st @ [said text]\<rparr>"

definition libc_event :: "'s libc_call \<Rightarrow> ('a, 's) state \<Rightarrow> ('a, 's) state" where
  "libc_event c st = st\<lparr>events := events st @ [Libc c]\<rparr>"

definition assign :: "string \<Rightarrow> ptr \<Rightarrow> ('a, 's) state \<Rightarrow> ('a, 's) state" where
  "assign name p st = st\<lparr>vars := (vars st)(name := p)\<rparr>"

text \<open>
  The elements a handle owns: none for the null pointer, the region's elements for the
  address of a live region, and \<open>None\<close> for a dangling pointer.
\<close>

definition contents :: "('a, 's) state \<Rightarrow> string \<Rightarrow> 'a list option" where
  "contents st name = (case vars st name of None \<Rightarrow> Some [] | Some a \<Rightarrow> heap st a)"

definition init_state :: "('a, 's) state" where
  "init_state = \<lparr>vars = (\<lambda>_. None), heap = Map.empty, events = []\<rparr>"

subsection \<open>The C library\<close>

text \<open>
  The allocator is not part of the header. It is modelled after the C standard, and what
  the standard leaves to the implementation comes in as an argument, the reply: whether
  the request is granted, at which address, and with which indeterminate contents
  (\<open>junk i\<close> is the value found at index \<open>i\<close> of fresh memory).

  A region is seen as elements of the macro's element type: \<open>bytes\<close> bytes hold
  \<open>unat bytes div unat sz\<close> whole elements of \<open>sz\<close> bytes each. The address of a
  reply is taken as it comes; no property below needs it to be fresh.
\<close>

datatype 'a reply = Refuse | Grant addr "nat \<Rightarrow> 'a"

datatype 'a re_reply = Fail | Freed | Moved addr "nat \<Rightarrow> 'a"

definition elems :: "'w::len word \<Rightarrow> 'w word \<Rightarrow> nat" where
  "elems bytes sz = unat bytes div unat sz"

definition libc_malloc :: "'a reply \<Rightarrow> 'w::len word \<Rightarrow> 'w word \<Rightarrow> 'a heap \<Rightarrow> ptr \<times> 'a heap" where
  "libc_malloc r bytes sz h =
     (case r of
        Refuse \<Rightarrow> (None, h)
      | Grant a junk \<Rightarrow> (Some a, h(a \<mapsto> map junk [0..<elems bytes sz])))"

text \<open>
  \<^verbatim>\<open>calloc(n, sz)\<close> returns space for \<open>n\<close> objects of \<open>sz\<close> bytes or a null pointer;
  it has no region to return when \<open>n * sz\<close> does not fit \<^verbatim>\<open>size_t\<close>. The model does
  not assume that the space is zeroed: its contents are the reply's \<open>junk\<close>.
\<close>

definition libc_calloc :: "'a reply \<Rightarrow> 'w::len word \<Rightarrow> 'w word \<Rightarrow> 'a heap \<Rightarrow> ptr \<times> 'a heap" where
  "libc_calloc r n sz h =
     (case r of
        Refuse \<Rightarrow> (None, h)
      | Grant a junk \<Rightarrow>
          if unat n * unat sz < 2 ^ LENGTH('w)
          then (Some a, h(a \<mapsto> map junk [0..<unat n]))
          else (None, h))"

text \<open>
  \<^verbatim>\<open>realloc(p, bytes)\<close>: with a null \<open>p\<close> it is \<^verbatim>\<open>malloc(bytes)\<close>. Otherwise \<open>p\<close> must
  be the address of a live region (anything else is undefined: \<open>None\<close>). On \<open>Moved\<close>
  the old region is released and the new one starts with the old elements, as many as fit.
  On \<open>Fail\<close> the result is null and the old region stays as it was. \<open>Freed\<close> is the
  answer some libraries give to a request of 0 bytes: the old region is released and the
  result is null; for a request of more than 0 bytes it is read as \<open>Fail\<close>.
\<close>

definition libc_realloc ::
  "'a re_reply \<Rightarrow> ptr \<Rightarrow> 'w::len word \<Rightarrow> 'w word \<Rightarrow> 'a heap \<Rightarrow> (ptr \<times> 'a heap) option" where
  "libc_realloc r p bytes sz h =
     (case p of
        None \<Rightarrow>
          (case r of
             Moved a junk \<Rightarrow> Some (Some a, h(a \<mapsto> map junk [0..<elems bytes sz]))
           | _ \<Rightarrow> Some (None, h))
      | Some a0 \<Rightarrow>
          (case h a0 of
             None \<Rightarrow> None
           | Some old \<Rightarrow>
               (case r of
                  Fail \<Rightarrow> Some (None, h)
                | Freed \<Rightarrow> Some (None, if bytes = 0 then h(a0 := None) else h)
                | Moved a junk \<Rightarrow>
                    Some (Some a,
                      (h(a0 := None))(a \<mapsto>
                         take (elems bytes sz) old @ map junk [length old..<elems bytes sz])))))"

definition libc_free :: "addr \<Rightarrow> 'a heap \<Rightarrow> 'a heap option" where
  "libc_free a h = (if a \<in> dom h then Some (h(a := None)) else None)"

subsection \<open>Formatting\<close>

text \<open>
  \<^verbatim>\<open>%12s\<close> pads on the left to 12 characters, \<^verbatim>\<open>%-6d\<close> prints an \<^verbatim>\<open>int\<close> in
  decimal and pads on the right to 6, \<^verbatim>\<open>%d\<close> prints it unpadded.

  The macros paste spellings into their format strings: \<^verbatim>\<open>#type\<close> into the format of
  a trace line, and \<^verbatim>\<open>#name\<close>, \<^verbatim>\<open>#len\<close> and \<^verbatim>\<open>#type\<close> into the format of a
  failure message. A \<^verbatim>\<open>%\<close> in a pasted spelling starts a conversion of its own, which
  takes the \<^verbatim>\<open>int\<close> meant for \<^verbatim>\<open>%d\<close> or finds no argument at all. The output is
  given for \<open>plain\<close> spellings, which hold no \<^verbatim>\<open>%\<close>, and is \<open>None\<close> (not given)
  for the others.
\<close>

fun dec_nat :: "nat \<Rightarrow> string" where
  "dec_nat n =
     (if n < 10 then [''0123456789'' ! n]
      else dec_nat (n div 10) @ [''0123456789'' ! (n mod 10)])"

declare dec_nat.simps [simp del]

definition dec :: "int \<Rightarrow> string" where
  "dec k = (if k < 0 then CHR ''-'' # dec_nat (nat (- k)) else dec_nat (nat k))"

definition pad_left :: "nat \<Rightarrow> string \<Rightarrow> string" where
  "pad_left w s = replicate (w - length s) CHR '' '' @ s"

definition pad_right :: "nat \<Rightarrow> string \<Rightarrow> string" where
  "pad_right w s = s @ replicate (w - length s) CHR '' ''"

definition newline :: char where
  "newline = CHR 0x0A"

definition plain :: "string \<Rightarrow> bool" where
  "plain s = (CHR ''%'' \<notin> set s)"

text \<open>
  \<^verbatim>\<open>printf("MALLOC(  %12s, %12s=%-6d," #type " )\n", #name, #len, len)\<close>, and the same
  with \<^verbatim>\<open>"CALLOC(  "\<close> and \<^verbatim>\<open>"REALLOC( "\<close> in front.
\<close>

definition trace_line ::
  "string \<Rightarrow> string \<Rightarrow> string \<Rightarrow> c_int \<Rightarrow> string \<Rightarrow> string option" where
  "trace_line head name len_text len type_text =
     (if plain type_text
      then Some (head @ pad_left 12 name @ '', '' @ pad_left 12 len_text @ ''=''
                  @ pad_right 6 (dec (sint len)) @ '','' @ type_text @ '' )'' @ [newline])
      else None)"

text \<open>\<^verbatim>\<open>printf("FREE(    %12s )\n", #name)\<close>\<close>

definition free_line :: "string \<Rightarrow> string" where
  "free_line name = ''FREE(    '' @ pad_left 12 name @ '' )'' @ [newline]"

text \<open>
  \<^verbatim>\<open>printf("MALLOC(" #name "," #len "=%d," #type ")" ": cannot allocate space", len)\<close>,
  and the same with \<^verbatim>\<open>"CALLOC("\<close>, and with \<^verbatim>\<open>"REALLOC("\<close> and
  \<^verbatim>\<open>": cannot reallocate space"\<close>.
\<close>

definition fail_msg ::
  "string \<Rightarrow> string \<Rightarrow> string \<Rightarrow> c_int \<Rightarrow> string \<Rightarrow> string \<Rightarrow> string option" where
  "fail_msg head name len_text len type_text tail =
     (if plain name \<and> plain len_text \<and> plain type_text
      then Some (head @ name @ '','' @ len_text @ ''='' @ dec (sint len) @ '',''
                  @ type_text @ '')'' @ tail)
      else None)"

subsection \<open>Sizes\<close>

text \<open>
  \<^verbatim>\<open>(len) * sizeof(type)\<close>: \<^verbatim>\<open>len\<close> is an \<^verbatim>\<open>int\<close> (it is printed with \<^verbatim>\<open>%d\<close> and
  compared with the \<^verbatim>\<open>int i\<close> of \<^verbatim>\<open>CALLOC\<close>), \<^verbatim>\<open>sizeof\<close> yields a \<^verbatim>\<open>size_t\<close>. With
  \<^verbatim>\<open>size_t\<close> at least as wide as \<^verbatim>\<open>int\<close>, \<^verbatim>\<open>len\<close> is converted to \<^verbatim>\<open>size_t\<close>
  and the product is taken there.
\<close>

definition to_size :: "c_int \<Rightarrow> 'w::len word" where
  "to_size len = word_of_int (sint len)"

definition byte_size :: "c_int \<Rightarrow> 'w::len word \<Rightarrow> 'w word" where
  "byte_size len sz = to_size len * sz"

text \<open>\<^verbatim>\<open>#define MY_MALLOC_THRESH 1\<close>\<close>

definition MY_MALLOC_THRESH :: "'w::len word" where
  "MY_MALLOC_THRESH = 1"

subsection \<open>The macros with MALLOCDEBUG defined\<close>

text \<open>
  Each takes the value of \<^verbatim>\<open>MY_MALLOC_THRESH\<close> as \<open>th\<close> and the allocator's reply,
  then the macro's arguments: \<^verbatim>\<open>name\<close> (its spelling), \<^verbatim>\<open>len\<close> (spelling and value)
  and \<^verbatim>\<open>type\<close> (spelling and \<^verbatim>\<open>sizeof\<close>). The bodies evaluate \<^verbatim>\<open>len\<close> several
  times; the value given is the value of the caller's expression, the same each time:
  the arguments are expressions without side effects, and the count does not read the
  handle or its region, which the body writes. Where the body itself changes what an
  argument means, in \<^verbatim>\<open>CALLOC\<close>, the model says so below.
\<close>

definition MALLOC_debug ::
  "'w::len word \<Rightarrow> 'a reply \<Rightarrow> string \<Rightarrow> string \<Rightarrow> c_int \<Rightarrow> string \<Rightarrow> 'w word
     \<Rightarrow> ('a, 'w word) state \<Rightarrow> ('a, 'w word) state outcome" where
  "MALLOC_debug th r name len_text len type_text sz st =
     (let st1 = (if th \<le> byte_size len sz
                 then emit (trace_line ''MALLOC(  '' name len_text len type_text) st
                 else st);
          (p, h) = libc_malloc r (byte_size len sz) sz (heap st1);
          st2 = assign name p ((libc_event (Malloc_call (byte_size len sz)) st1)\<lparr>heap := h\<rparr>)
      in if p = None \<and> 0 <s len
         then Exit 1 (emit (fail_msg ''MALLOC('' name len_text len type_text
                              '': cannot allocate space'') st2)
         else Return st2)"

text \<open>
  \<^verbatim>\<open>CALLOC\<close> declares \<^verbatim>\<open>int i;\<close> at the head of its block and first assigns it in the
  loop at the end. An argument that names \<^verbatim>\<open>i\<close> is therefore read in the scope of this
  \<^verbatim>\<open>i\<close>, not of a variable of the caller's: the count, the handle or the size is then
  computed from an uninitialised variable, which is undefined, and the loop test would be
  \<^verbatim>\<open>i<(i)\<close>. \<open>names_i\<close> holds of a spelling with \<^verbatim>\<open>i\<close> as a word of its own, a
  longest run of letters, digits and underscores. The test is by spelling and errs to one
  side: it also holds of a member \<^verbatim>\<open>.i\<close> and of the character constant \<^verbatim>\<open>'i'\<close>,
  which are not the variable; the model gives no result for those calls either.
\<close>

definition ident_char :: "char \<Rightarrow> bool" where
  "ident_char c =
     (c \<in> set ''abcdefghijklmnopqrstuvwxyzABCDEFGHIJKLMNOPQRSTUVWXYZ0123456789_'')"

fun ident_runs :: "string \<Rightarrow> string \<Rightarrow> string list" where
  "ident_runs w [] = [w]"
| "ident_runs w (c # cs) =
     (if ident_char c then ident_runs (w @ [c]) cs else w # ident_runs [] cs)"

definition names_i :: "string \<Rightarrow> bool" where
  "names_i s = (''i'' \<in> set (ident_runs [] s))"

definition captured :: "string \<Rightarrow> string \<Rightarrow> string \<Rightarrow> bool" where
  "captured name len_text type_text =
     (names_i name \<or> names_i len_text \<or> names_i type_text)"

text \<open>
  The loop writes \<^verbatim>\<open>name[i] = 0\<close> with no parentheses around \<^verbatim>\<open>name\<close>. For a handle
  spelled as a postfix expression this is \<^verbatim>\<open>(name)[i]\<close>, an element of the region; for
  another lvalue, \<^verbatim>\<open>*pp\<close> say, it is \<^verbatim>\<open>*(pp[i])\<close>, a store through other pointers,
  which the model does not follow. \<open>indexable\<close> holds of a spelling made of letters,
  digits, underscores, \<^verbatim>\<open>.\<close>, \<^verbatim>\<open>->\<close>, \<^verbatim>\<open>[\<close> and \<^verbatim>\<open>]\<close> only: an lvalue so spelled
  is a postfix expression.

  \<open>store\<close> is the assignment \<^verbatim>\<open>name[i] = v\<close>: \<open>None\<close> for a handle that is not
  \<open>indexable\<close>, through a null or dangling pointer, and outside the region.
\<close>

definition indexable :: "string \<Rightarrow> bool" where
  "indexable name = list_all (\<lambda>c. ident_char c \<or> c \<in> set ''.->[]'') name"

definition store :: "string \<Rightarrow> c_int \<Rightarrow> 'a \<Rightarrow> ('a, 's) state \<Rightarrow> ('a, 's) state option" where
  "store name i v st =
     (if \<not> indexable name then None
      else case vars st name of
        None \<Rightarrow> None
      | Some a \<Rightarrow>
          (case heap st a of
             None \<Rightarrow> None
           | Some xs \<Rightarrow>
               if 0 \<le> sint i \<and> nat (sint i) < length xs
               then Some (st\<lparr>heap := (heap st)(a \<mapsto> xs[nat (sint i) := v])\<rparr>)
               else None))"

text \<open>
  The loop \<^verbatim>\<open>for (i=0; i<(len); i++) name[i] = 0;\<close> with \<^verbatim>\<open>int i\<close>. It is reached
  only with arguments that do not name \<^verbatim>\<open>i\<close>, so \<^verbatim>\<open>(len)\<close> has the same value in
  every test.
\<close>

function zero_loop ::
  "string \<Rightarrow> c_int \<Rightarrow> c_int \<Rightarrow> ('a::zero, 's) state \<Rightarrow> ('a, 's) state option" where
  "zero_loop name len i st =
     (if i <s len
      then (case store name i 0 st of
              None \<Rightarrow> None
            | Some st' \<Rightarrow> zero_loop name len (i + 1) st')
      else Some st)"
  by pat_completeness auto
termination
proof (relation "measure (\<lambda>(name, len, i, st). nat (sint len - sint i))")
  show "wf (measure (\<lambda>(name, len, i, st). nat (sint len - sint i)))"
    by simp
next
  fix name :: string and len i :: c_int and st st' :: "('a, 's) state"
  assume "i <s len"
  then have below: "sint i < sint len"
    by (simp add: word_sless_alt)
  have top: "sint len < 2 ^ 31"
    using sint_lt [of len] by simp
  have bottom: "- (2 ^ 31) \<le> sint i"
    using sint_ge [of i] by simp
  have "sint (i + 1) = signed_take_bit 31 (sint i + 1)"
    by (simp add: sint_word_ariths)
  also have "\<dots> = sint i + 1"
    using below top bottom by (intro signed_take_bit_int_eq_self) auto
  finally have "sint (i + 1) = sint i + 1" .
  with below show "((name, len, i + 1, st'), (name, len, i, st))
      \<in> measure (\<lambda>(name, len, i, st). nat (sint len - sint i))"
    by simp
qed

declare zero_loop.simps [simp del]

definition CALLOC_debug ::
  "'w::len word \<Rightarrow> 'a::zero reply \<Rightarrow> string \<Rightarrow> string \<Rightarrow> c_int \<Rightarrow> string \<Rightarrow> 'w word
     \<Rightarrow> ('a, 'w word) state \<Rightarrow> ('a, 'w word) state outcome" where
  "CALLOC_debug th r name len_text len type_text sz st =
     (if captured name len_text type_text then Undefined
      else
       (let st1 = (if th \<le> byte_size len sz
                   then emit (trace_line ''CALLOC(  '' name len_text len type_text) st
                   else st);
            (p, h) = libc_calloc r (to_size len) sz (heap st1);
            st2 = assign name p ((libc_event (Calloc_call (to_size len) sz) st1)\<lparr>heap := h\<rparr>)
        in if p = None \<and> 0 <s len
           then Exit 1 (emit (fail_msg ''CALLOC('' name len_text len type_text
                                '': cannot allocate space'') st2)
           else (case zero_loop name len 0 st2 of
                   None \<Rightarrow> Undefined
                 | Some st3 \<Rightarrow> Return st3)))"

definition REALLOC_debug ::
  "'w::len word \<Rightarrow> 'a re_reply \<Rightarrow> string \<Rightarrow> string \<Rightarrow> c_int \<Rightarrow> string \<Rightarrow> 'w word
     \<Rightarrow> ('a, 'w word) state \<Rightarrow> ('a, 'w word) state outcome" where
  "REALLOC_debug th r name len_text len type_text sz st =
     (let st1 = (if th \<le> byte_size len sz
                 then emit (trace_line ''REALLOC( '' name len_text len type_text) st
                 else st)
      in case libc_realloc r (vars st1 name) (byte_size len sz) sz (heap st1) of
           None \<Rightarrow> Undefined
         | Some (p, h) \<Rightarrow>
             (let st2 = assign name p
                          ((libc_event (Realloc_call (vars st1 name) (byte_size len sz)) st1)
                             \<lparr>heap := h\<rparr>)
              in if p = None \<and> 0 <s len
                 then Exit 11 (emit (fail_msg ''REALLOC('' name len_text len type_text
                                       '': cannot reallocate space'') st2)
                 else Return st2))"

definition FREE_debug :: "string \<Rightarrow> ('a, 's) state \<Rightarrow> ('a, 's) state outcome" where
  "FREE_debug name st =
     (let st1 = printf (free_line name) st
      in case vars st1 name of
           None \<Rightarrow> Return (assign name None st1)
         | Some a \<Rightarrow>
             (case libc_free a (heap st1) of
                None \<Rightarrow> Undefined
              | Some h \<Rightarrow>
                  Return (assign name None ((libc_event (Free_call (Some a)) st1)\<lparr>heap := h\<rparr>))))"

subsection \<open>The macros without MALLOCDEBUG\<close>

definition MALLOC_silent ::
  "'a reply \<Rightarrow> string \<Rightarrow> string \<Rightarrow> c_int \<Rightarrow> string \<Rightarrow> 'w::len word
     \<Rightarrow> ('a, 'w word) state \<Rightarrow> ('a, 'w word) state outcome" where
  "MALLOC_silent r name len_text len type_text sz st =
     (let (p, h) = libc_malloc r (byte_size len sz) sz (heap st);
          st2 = assign name p ((libc_event (Malloc_call (byte_size len sz)) st)\<lparr>heap := h\<rparr>)
      in if p = None \<and> 0 <s len
         then Exit 1 (emit (fail_msg ''MALLOC('' name len_text len type_text
                              '': cannot allocate space'') st2)
         else Return st2)"

definition CALLOC_silent ::
  "'a::zero reply \<Rightarrow> string \<Rightarrow> string \<Rightarrow> c_int \<Rightarrow> string \<Rightarrow> 'w::len word
     \<Rightarrow> ('a, 'w word) state \<Rightarrow> ('a, 'w word) state outcome" where
  "CALLOC_silent r name len_text len type_text sz st =
     (if captured name len_text type_text then Undefined
      else
       (let (p, h) = libc_calloc r (to_size len) sz (heap st);
            st2 = assign name p ((libc_event (Calloc_call (to_size len) sz) st)\<lparr>heap := h\<rparr>)
        in if p = None \<and> 0 <s len
           then Exit 1 (emit (fail_msg ''CALLOC('' name len_text len type_text
                                '': cannot allocate space'') st2)
           else (case zero_loop name len 0 st2 of
                   None \<Rightarrow> Undefined
                 | Some st3 \<Rightarrow> Return st3)))"

definition REALLOC_silent ::
  "'a re_reply \<Rightarrow> string \<Rightarrow> string \<Rightarrow> c_int \<Rightarrow> string \<Rightarrow> 'w::len word
     \<Rightarrow> ('a, 'w word) state \<Rightarrow> ('a, 'w word) state outcome" where
  "REALLOC_silent r name len_text len type_text sz st =
     (case libc_realloc r (vars st name) (byte_size len sz) sz (heap st) of
        None \<Rightarrow> Undefined
      | Some (p, h) \<Rightarrow>
          (let st2 = assign name p
                       ((libc_event (Realloc_call (vars st name) (byte_size len sz)) st)
                          \<lparr>heap := h\<rparr>)
           in if p = None \<and> 0 <s len
              then Exit 1 (emit (fail_msg ''REALLOC('' name len_text len type_text
                                   '': cannot reallocate space'') st2)
              else Return st2))"

definition FREE_silent :: "string \<Rightarrow> ('a, 's) state \<Rightarrow> ('a, 's) state outcome" where
  "FREE_silent name st =
     (case vars st name of
        None \<Rightarrow> Return (assign name None st)
      | Some a \<Rightarrow>
          (case libc_free a (heap st) of
             None \<Rightarrow> Undefined
           | Some h \<Rightarrow>
               Return (assign name None ((libc_event (Free_call (Some a)) st)\<lparr>heap := h\<rparr>))))"

subsection \<open>The build\<close>

text \<open>
  \<^verbatim>\<open>#ifdef MALLOCDEBUG\<close> selects one set of macros. A tracing build carries the value of
  \<^verbatim>\<open>MY_MALLOC_THRESH\<close>, which the header sets to 1.
\<close>

datatype 's build = Silent | Tracing 's

definition MALLOC ::
  "'w::len word build \<Rightarrow> 'a reply \<Rightarrow> string \<Rightarrow> string \<Rightarrow> c_int \<Rightarrow> string \<Rightarrow> 'w word
     \<Rightarrow> ('a, 'w word) state \<Rightarrow> ('a, 'w word) state outcome" where
  "MALLOC b =
     (case b of Silent \<Rightarrow> MALLOC_silent | Tracing th \<Rightarrow> MALLOC_debug th)"

definition CALLOC ::
  "'w::len word build \<Rightarrow> 'a::zero reply \<Rightarrow> string \<Rightarrow> string \<Rightarrow> c_int \<Rightarrow> string \<Rightarrow> 'w word
     \<Rightarrow> ('a, 'w word) state \<Rightarrow> ('a, 'w word) state outcome" where
  "CALLOC b =
     (case b of Silent \<Rightarrow> CALLOC_silent | Tracing th \<Rightarrow> CALLOC_debug th)"

definition REALLOC ::
  "'w::len word build \<Rightarrow> 'a re_reply \<Rightarrow> string \<Rightarrow> string \<Rightarrow> c_int \<Rightarrow> string \<Rightarrow> 'w word
     \<Rightarrow> ('a, 'w word) state \<Rightarrow> ('a, 'w word) state outcome" where
  "REALLOC b =
     (case b of Silent \<Rightarrow> REALLOC_silent | Tracing th \<Rightarrow> REALLOC_debug th)"

definition FREE :: "'s build \<Rightarrow> string \<Rightarrow> ('a, 's) state \<Rightarrow> ('a, 's) state outcome" where
  "FREE b = (case b of Silent \<Rightarrow> FREE_silent | Tracing th \<Rightarrow> FREE_debug)"

subsection \<open>Observations\<close>

text \<open>
  What a tracing build prints before it calls the allocator: the trace line, when the
  byte size reaches the threshold. A silent build prints nothing there.
\<close>

definition trace_events ::
  "'w::len word build \<Rightarrow> 'w word \<Rightarrow> string option \<Rightarrow> 'w word event list" where
  "trace_events b bytes line =
     (case b of Silent \<Rightarrow> [] | Tracing th \<Rightarrow> if th \<le> bytes then [said line] else [])"

text \<open>The allocator calls and the printed strings of an event list, each in order.\<close>

fun libc_calls :: "'s event list \<Rightarrow> 's libc_call list" where
  "libc_calls [] = []"
| "libc_calls (Libc c # es) = c # libc_calls es"
| "libc_calls (Printf s # es) = libc_calls es"
| "libc_calls (Printf_undefined # es) = libc_calls es"

fun printed :: "'s event list \<Rightarrow> string list" where
  "printed [] = []"
| "printed (Printf s # es) = s # printed es"
| "printed (Libc c # es) = printed es"
| "printed (Printf_undefined # es) = printed es"


text \<open>
  A state for examples: the handle \<open>y\<close> owns the three \<^verbatim>\<open>int\<close>s 7, 8, 9 at address 0,
  every other handle is null, and nothing has happened yet.
\<close>

definition three_ints :: "(int, 's) state" where
  "three_ints = \<lparr>vars = (\<lambda>_. None)(''y'' := Some 0), heap = [0 \<mapsto> [7, 8, 9]], events = []\<rparr>"

section \<open>Properties\<close>

lemmas macro_defs =
  MALLOC_def CALLOC_def REALLOC_def FREE_def
  MALLOC_debug_def CALLOC_debug_def REALLOC_debug_def FREE_debug_def
  MALLOC_silent_def CALLOC_silent_def REALLOC_silent_def FREE_silent_def

lemmas step_defs =
  printf_def emit_def said_def libc_event_def assign_def
  libc_malloc_def libc_calloc_def libc_realloc_def libc_free_def

subsection \<open>State updates\<close>

lemma vars_printf [simp]: "vars (printf s st) = vars st"
  and heap_printf [simp]: "heap (printf s st) = heap st"
  and events_printf [simp]: "events (printf s st) = events st @ [Printf s]"
  by (simp_all add: printf_def)

lemma said_Some [simp]: "said (Some s) = Printf s"
  and said_None [simp]: "said None = Printf_undefined"
  by (simp_all add: said_def)

lemma vars_emit [simp]: "vars (emit text st) = vars st"
  and heap_emit [simp]: "heap (emit text st) = heap st"
  and events_emit [simp]: "events (emit text st) = events st @ [said text]"
  by (simp_all add: emit_def)

lemma emit_Some: "emit (Some s) st = printf s st"
  by (simp add: emit_def printf_def)

lemma vars_libc_event [simp]: "vars (libc_event c st) = vars st"
  and heap_libc_event [simp]: "heap (libc_event c st) = heap st"
  and events_libc_event [simp]: "events (libc_event c st) = events st @ [Libc c]"
  by (simp_all add: libc_event_def)

lemma vars_assign [simp]: "vars (assign name p st) = (vars st)(name := p)"
  and heap_assign [simp]: "heap (assign name p st) = heap st"
  and events_assign [simp]: "events (assign name p st) = events st"
  by (simp_all add: assign_def)

lemma three_ints_y [simp]:
  "vars three_ints ''y'' = Some 0"
  "heap three_ints 0 = Some [7, 8, 9]"
  "events three_ints = []"
  "contents three_ints ''y'' = Some [7, 8, 9]"
  by (simp_all add: three_ints_def contents_def)

lemma libc_calls_append [simp]: "libc_calls (es @ fs) = libc_calls es @ libc_calls fs"
  by (induction es rule: libc_calls.induct) simp_all

lemma printed_append [simp]: "printed (es @ fs) = printed es @ printed fs"
  by (induction es rule: printed.induct) simp_all

lemma libc_calls_said [simp]: "libc_calls (said out # es) = libc_calls es"
  by (cases out) simp_all

lemma libc_calls_trace_events [simp]: "libc_calls (trace_events b bytes line) = []"
  by (cases line) (simp_all add: trace_events_def split: build.splits)



subsection \<open>Sizes\<close>

lemma byte_size_0 [simp]: "byte_size 0 sz = 0"
  and to_size_0 [simp]: "to_size 0 = 0"
  and elems_0 [simp]: "elems 0 sz = 0"
  by (simp_all add: byte_size_def to_size_def elems_def)

text \<open>The conversion of a count to \<^verbatim>\<open>size_t\<close> is exact when the count is not negative and fits.\<close>

lemma to_size_unat:
  assumes "0 \<le> sint len" and "sint len < 2 ^ LENGTH('w::len)"
  shows "unat (to_size len :: 'w word) = nat (sint len)"
proof -
  have "uint (word_of_int (sint len) :: 'w word) = sint len mod 2 ^ LENGTH('w)"
    by (rule uint_word_of_int)
  then have "uint (to_size len :: 'w word) = sint len"
    using assms unfolding to_size_def by simp
  then show ?thesis
    by (simp add: unat_eq_nat_uint)
qed

lemma to_size_exact:
  assumes "32 \<le> LENGTH('w::len)" and "0 \<le> sint len"
  shows "unat (to_size len :: 'w word) = nat (sint len)"
proof -
  have "sint len < 2 ^ 31"
    using sint_lt [of len] by simp
  also have "(2::int) ^ 31 \<le> 2 ^ LENGTH('w)"
    using assms(1) by (intro power_increasing) auto
  finally have "sint len < 2 ^ LENGTH('w)" .
  with assms(2) show ?thesis
    by (rule to_size_unat)
qed

text \<open>
  When the product of a count that is not negative and the element size fits
  \<^verbatim>\<open>size_t\<close>, the byte size is that product, and the bytes requested hold exactly
  that many elements.
\<close>

lemma byte_size_exact:
  fixes sz :: "'w::len word"
  assumes "0 \<le> sint len" and "nat (sint len) * unat sz < 2 ^ LENGTH('w)" and "sz \<noteq> 0"
  shows "unat (byte_size len sz) = nat (sint len) * unat sz"
proof -
  have pos: "0 < unat sz"
    using assms(3) by (simp add: unat_gt_0)
  then have "nat (sint len) * 1 \<le> nat (sint len) * unat sz"
    by (intro mult_le_mono2) simp
  then have le: "nat (sint len) \<le> nat (sint len) * unat sz"
    by (simp only: mult_1_right)
  have "nat (sint len) < 2 ^ LENGTH('w)"
    by (rule le_less_trans [OF le assms(2)])
  then have "int (nat (sint len)) < int (2 ^ LENGTH('w))"
    by (simp only: of_nat_less_iff)
  then have "sint len < 2 ^ LENGTH('w)"
    using assms(1) by simp
  then have n: "unat (to_size len :: 'w word) = nat (sint len)"
    using assms(1) by (intro to_size_unat)
  have "unat (byte_size len sz) = (nat (sint len) * unat sz) mod 2 ^ LENGTH('w)"
    by (simp add: byte_size_def unat_word_ariths n)
  then show ?thesis
    using assms(2) by simp
qed

lemma elems_exact:
  fixes sz :: "'w::len word"
  assumes "0 \<le> sint len" and "nat (sint len) * unat sz < 2 ^ LENGTH('w)" and "sz \<noteq> 0"
  shows "elems (byte_size len sz) sz = nat (sint len)"
proof -
  have "0 < unat sz"
    using assms(3) by (simp add: unat_gt_0)
  then show ?thesis
    using byte_size_exact [OF assms] by (simp add: elems_def)
qed

lemma byte_size_uint:
  fixes sz :: "'w::len word"
  shows "uint (byte_size len sz) = (sint len * uint sz) mod 2 ^ LENGTH('w)"
proof -
  have "uint (word_of_int (sint len) :: 'w word) = sint len mod 2 ^ LENGTH('w)"
    by (rule uint_word_of_int)
  then have "uint (byte_size len sz) = (sint len mod 2 ^ LENGTH('w) * uint sz) mod 2 ^ LENGTH('w)"
    unfolding byte_size_def to_size_def by (simp only: uint_word_ariths)
  then show ?thesis
    by (simp add: mod_mult_left_eq)
qed

subsection \<open>The zeroing loop\<close>

lemma zero_loop_skip: "\<not> i <s len \<Longrightarrow> zero_loop name len i st = Some st"
  by (simp add: zero_loop.simps [of name len i st])


text \<open>
  Started at index \<open>i\<close> on a region of \<open>len\<close> elements, the loop leaves the elements
  below \<open>i\<close> as they are and sets the others to 0; no store is out of range.
\<close>

lemma zero_loop_fill:
  assumes "vars st name = Some a" and "heap st a = Some xs"
    and "0 \<le> sint i" and "sint i \<le> sint len" and "length xs = nat (sint len)"
    and "indexable name"
  shows "zero_loop name len i st
     = Some (st\<lparr>heap := (heap st)(a \<mapsto> take (nat (sint i)) xs
                                        @ replicate (nat (sint len) - nat (sint i)) 0)\<rparr>)"
  using assms
proof (induction name len i st arbitrary: xs rule: zero_loop.induct)
  case (1 name len i st)
  show ?case
  proof (cases "i <s len")
    case True
    then have lt: "sint i < sint len"
      by (simp add: word_sless_alt)
    have top: "sint len < 2 ^ 31"
      using sint_lt [of len] by simp
    have "sint (i + 1) = signed_take_bit 31 (sint i + 1)"
      by (simp add: sint_word_ariths)
    also have "\<dots> = sint i + 1"
      using lt top "1.prems"(3) by (intro signed_take_bit_int_eq_self) auto
    finally have succ: "sint (i + 1) = sint i + 1" .
    have inside: "nat (sint i) < length xs"
      using lt "1.prems" by simp
    define st1 where "st1 = st\<lparr>heap := (heap st)(a \<mapsto> xs[nat (sint i) := 0])\<rparr>"
    have s: "store name i 0 st = Some st1"
      using "1.prems" inside by (simp add: store_def st1_def)
    have step: "zero_loop name len i st = zero_loop name len (i + 1) st1"
      using True s by (simp add: zero_loop.simps [of name len i st])
    have n: "nat (sint (i + 1)) = Suc (nat (sint i))"
      using succ "1.prems"(3) by simp
    have front: "take (Suc (nat (sint i))) (xs[nat (sint i) := 0]) = take (nat (sint i)) xs @ [0]"
      using inside by (simp add: take_Suc_conv_app_nth)
    have rest: "replicate (nat (sint len) - nat (sint i)) (0::'a)
        = 0 # replicate (nat (sint len) - Suc (nat (sint i))) 0"
      using lt "1.prems"(3) by (simp add: Suc_diff_Suc flip: replicate_Suc)
    have "zero_loop name len (i + 1) st1
        = Some (st1\<lparr>heap := (heap st1)(a \<mapsto> take (nat (sint (i + 1))) (xs[nat (sint i) := 0])
                                        @ replicate (nat (sint len) - nat (sint (i + 1))) 0)\<rparr>)"
      using "1.prems" lt succ by (intro "1.IH" [OF True s]) (simp_all add: st1_def)
    also have "st1\<lparr>heap := (heap st1)(a \<mapsto> take (nat (sint (i + 1))) (xs[nat (sint i) := 0])
                                        @ replicate (nat (sint len) - nat (sint (i + 1))) 0)\<rparr>
        = st\<lparr>heap := (heap st)(a \<mapsto> take (nat (sint i)) xs
                                        @ replicate (nat (sint len) - nat (sint i)) 0)\<rparr>"
      by (simp add: st1_def n front rest)
    finally show ?thesis
      by (simp only: step)
  next
    case False
    then have "sint i = sint len"
      using "1.prems"(4) by (simp add: word_sless_alt)
    then show ?thesis
      using False "1.prems" by (simp add: zero_loop.simps [of name len i st] map_upd_triv)
  qed
qed

subsection \<open>What each macro prints and calls\<close>

lemma MALLOC_events:
  assumes "outcome_state (MALLOC b r name len_text len type_text sz st) = Some st'"
  shows "events st' = events st
           @ trace_events b (byte_size len sz) (trace_line ''MALLOC(  '' name len_text len type_text)
           @ [Libc (Malloc_call (byte_size len sz))]
           @ (if r = Refuse \<and> 0 <s len
              then [said (fail_msg ''MALLOC('' name len_text len type_text
                              '': cannot allocate space'')]
              else [])"
  using assms
  by (cases b; cases r)
     (auto simp add: macro_defs libc_malloc_def trace_events_def Let_def split: if_splits)


lemma REALLOC_events:
  assumes "outcome_state (REALLOC b r name len_text len type_text sz st) = Some st'"
  shows "\<exists>post. events st' = events st
           @ trace_events b (byte_size len sz) (trace_line ''REALLOC( '' name len_text len type_text)
           @ [Libc (Realloc_call (vars st name) (byte_size len sz))] @ post
         \<and> (post = [] \<or> post = [said (fail_msg ''REALLOC('' name len_text len type_text
                              '': cannot reallocate space'')])"
  using assms
  by (cases b; cases r)
     (auto simp add: macro_defs libc_realloc_def trace_events_def Let_def
        split: if_splits option.splits)


subsection \<open>Defined behaviour\<close>

text \<open>
  \<^verbatim>\<open>MALLOC\<close> never does anything undefined; \<^verbatim>\<open>REALLOC\<close> and \<^verbatim>\<open>FREE\<close> do not when
  the handle is null or owns a live region.
\<close>

lemma MALLOC_defined:
  "\<exists>st'. outcome_state (MALLOC b r name len_text len type_text sz st) = Some st'"
  by (cases b; cases r) (simp_all add: macro_defs libc_malloc_def Let_def)

lemma REALLOC_defined:
  assumes "contents st name \<noteq> None"
  shows "\<exists>st'. outcome_state (REALLOC b r name len_text len type_text sz st) = Some st'"
  using assms
  by (cases b; cases r; cases "vars st name")
     (auto simp add: macro_defs libc_realloc_def contents_def Let_def)


text \<open>
  \<^verbatim>\<open>CALLOC\<close> with an argument that names \<^verbatim>\<open>i\<close> reads the uninitialised \<^verbatim>\<open>i\<close> of
  its own block.
\<close>

lemma CALLOC_captured:
  "captured name len_text type_text \<Longrightarrow> CALLOC b r name len_text len type_text sz st = Undefined"
  by (cases b) (simp_all add: macro_defs)

text \<open>
  With \<^verbatim>\<open>size_t\<close> at least as wide as \<^verbatim>\<open>int\<close>, a count that is not negative, no
  argument that names \<^verbatim>\<open>i\<close> and a handle spelled as a postfix expression,
  \<^verbatim>\<open>CALLOC\<close> either exits with status 1 or returns with the handle owning \<open>len\<close> zeros
  (no element at all for a null handle).
\<close>

lemma CALLOC_result:
  fixes st :: "('a::zero, 'w::len word) state"
  assumes "32 \<le> LENGTH('w)" and "0 \<le>s len"
    and "\<not> captured name len_text type_text" and "indexable name"
  shows "(\<exists>st'. CALLOC b r name len_text len type_text sz st = Exit 1 st')
       \<or> (\<exists>st'. CALLOC b r name len_text len type_text sz st = Return st'
             \<and> contents st' name = Some (replicate (nat (sint len)) 0))"
proof -
  have nonneg: "0 \<le> sint len"
    using assms(2) by (simp add: word_sle_eq)
  have n: "unat (to_size len :: 'w word) = nat (sint len)"
    using assms(1) nonneg by (rule to_size_exact)
  define st1 where "st1 = (case b of Silent \<Rightarrow> st | Tracing th \<Rightarrow>
      if th \<le> byte_size len sz
      then emit (trace_line ''CALLOC(  '' name len_text len type_text) st else st)"
  define p where "p = fst (libc_calloc r (to_size len) sz (heap st1))"
  define h where "h = snd (libc_calloc r (to_size len) sz (heap st1))"
  define st2 where
    "st2 = assign name p ((libc_event (Calloc_call (to_size len) sz) st1)\<lparr>heap := h\<rparr>)"
  have run: "CALLOC b r name len_text len type_text sz st =
      (if p = None \<and> 0 <s len
       then Exit 1 (emit (fail_msg ''CALLOC('' name len_text len type_text
                              '': cannot allocate space'') st2)
       else (case zero_loop name len 0 st2 of None \<Rightarrow> Undefined | Some st3 \<Rightarrow> Return st3))"
    using assms(3)
    by (cases b) (simp_all add: macro_defs st1_def p_def h_def st2_def Let_def split_def)
  show ?thesis
  proof (cases p)
    case None
    show ?thesis
    proof (cases "0 <s len")
      case True
      with None show ?thesis by (simp add: run)
    next
      case False
      then have "sint len = 0"
        using nonneg by (simp add: word_sless_alt)
      moreover have "zero_loop name len 0 st2 = Some st2"
        using False by (rule zero_loop_skip)
      moreover have "vars st2 name = None"
        using None by (simp add: st2_def)
      ultimately show ?thesis
        using None False by (simp add: run contents_def)
    qed
  next
    case (Some a)
    then obtain junk where r: "r = Grant a junk"
      and fits: "unat (to_size len :: 'w word) * unat sz < 2 ^ LENGTH('w)"
      by (cases r) (auto simp add: p_def libc_calloc_def split: if_splits)
    have v: "vars st2 name = Some a"
      using Some by (simp add: st2_def)
    have hp: "heap st2 a = Some (map junk [0..<nat (sint len)])"
      using r fits n by (simp add: st2_def h_def libc_calloc_def)
    have "zero_loop name len 0 st2
        = Some (st2\<lparr>heap := (heap st2)(a \<mapsto>
                   take (nat (sint (0::c_int))) (map junk [0..<nat (sint len)])
                     @ replicate (nat (sint len) - nat (sint (0::c_int))) 0)\<rparr>)"
      using v hp nonneg assms(4) by (intro zero_loop_fill) simp_all
    then show ?thesis
      using Some v by (simp add: run contents_def)
  qed
qed


section \<open>The claims\<close>

subsection \<open>Allocator failure\<close>

text \<open>
  When the allocator returns a null pointer for a positive count, five of the six
  allocating macros print their message and call \<^verbatim>\<open>exit(1)\<close>; \<^verbatim>\<open>REALLOC\<close> with
  \<^verbatim>\<open>MALLOCDEBUG\<close> defined calls \<^verbatim>\<open>exit(11)\<close>.
\<close>

lemma MALLOC_refused:
  assumes "0 <s len"
  shows "\<exists>st'. MALLOC b Refuse name len_text len type_text sz st = Exit 1 st'
           \<and> (\<exists>pre. events st' = pre @ [said (fail_msg ''MALLOC('' name len_text len type_text
                                                '': cannot allocate space'')])"
  using assms by (cases b) (simp_all add: macro_defs step_defs Let_def)

lemma CALLOC_refused:
  assumes "0 <s len" and "\<not> captured name len_text type_text"
  shows "\<exists>st'. CALLOC b Refuse name len_text len type_text sz st = Exit 1 st'
           \<and> (\<exists>pre. events st' = pre @ [said (fail_msg ''CALLOC('' name len_text len type_text
                                                '': cannot allocate space'')])"
  using assms by (cases b) (simp_all add: macro_defs step_defs Let_def)

lemma REALLOC_silent_refused:
  assumes "0 <s len" and "contents st name \<noteq> None"
  shows "\<exists>st'. REALLOC Silent Fail name len_text len type_text sz st = Exit 1 st'
           \<and> (\<exists>pre. events st' = pre @ [said (fail_msg ''REALLOC('' name len_text len type_text
                                                '': cannot reallocate space'')])"
  using assms
  by (auto simp add: macro_defs step_defs Let_def contents_def split: option.splits)

lemma REALLOC_debug_refused:
  assumes "0 <s len" and "contents st name \<noteq> None"
  shows "\<exists>st'. REALLOC (Tracing th) Fail name len_text len type_text sz st = Exit 11 st'
           \<and> (\<exists>pre. events st' = pre @ [said (fail_msg ''REALLOC('' name len_text len type_text
                                                '': cannot reallocate space'')])"
  using assms
  by (auto simp add: macro_defs step_defs Let_def contents_def split: option.splits)

text \<open>
  C1. On allocator failure with a positive count the macro prints a message naming the
  variable, the count and the element type, and ends the process with status 1, in both
  builds. The code does this except in \<^verbatim>\<open>REALLOC\<close> of the tracing build: asked for 5
  elements of 8 bytes for the null handle \<open>x\<close>, with \<^verbatim>\<open>realloc\<close> returning a null
  pointer, it prints the trace line and the message and exits with status 11.
\<close>

theorem C1_tracing_REALLOC_exits_11:
  "REALLOC (Tracing MY_MALLOC_THRESH) Fail ''x'' ''n'' 5 ''double'' (8 :: 64 word)
      (init_state :: (int, 64 word) state)
   = Exit 11 \<lparr>vars = (\<lambda>_. None), heap = Map.empty,
        events = [Printf (''REALLOC(            x,            n=5     ,double )'' @ [newline]),
                  Libc (Realloc_call None 40),
                  Printf ''REALLOC(x,n=5,double): cannot reallocate space'']\<rparr>"
proof -
  have line: "trace_line ''REALLOC( '' ''x'' ''n'' 5 ''double''
      = Some (''REALLOC(            x,            n=5     ,double )'' @ [newline])"
    by code_simp
  have msg: "fail_msg ''REALLOC('' ''x'' ''n'' 5 ''double'' '': cannot reallocate space''
      = Some ''REALLOC(x,n=5,double): cannot reallocate space''"
    by code_simp
  have bytes: "byte_size 5 (8 :: 64 word) = 40"
    by (simp add: byte_size_def to_size_def)
  have cmp: "(1 :: 64 word) \<le> 40" "(0 :: c_int) <s 5"
    by (simp_all add: word_le_nat_alt word_sless_alt)
  show ?thesis
    by (simp add: macro_defs step_defs init_state_def MY_MALLOC_THRESH_def Let_def
        line msg bytes cmp)
qed



subsection \<open>Zeroed allocation\<close>

text \<open>
  For every element type and every count \<open>len \<ge> 0\<close>, a \<^verbatim>\<open>CALLOC\<close> whose arguments do
  not name \<^verbatim>\<open>i\<close> and whose handle is spelled as a postfix expression does nothing
  undefined, and when it returns the handle owns \<open>len\<close> elements, each 0, whatever the
  allocator put into the region (the model's \<^verbatim>\<open>calloc\<close> hands out arbitrary contents).
  The platform is one whose \<^verbatim>\<open>size_t\<close> is at least as wide as \<^verbatim>\<open>int\<close>.
\<close>

lemma CALLOC_zeroes:
  fixes st :: "('a::zero, 'w::len word) state"
  assumes "32 \<le> LENGTH('w)" and "0 \<le>s len"
    and "\<not> captured name len_text type_text" and "indexable name"
  shows "CALLOC b r name len_text len type_text sz st \<noteq> Undefined
       \<and> (\<forall>st'. CALLOC b r name len_text len type_text sz st = Return st'
             \<longrightarrow> contents st' name = Some (replicate (nat (sint len)) 0))"
proof -
  from CALLOC_result [OF assms, of b r sz st]
  consider (exit) st1 where "CALLOC b r name len_text len type_text sz st = Exit 1 st1"
    | (return) st1 where "CALLOC b r name len_text len type_text sz st = Return st1"
        and "contents st1 name = Some (replicate (nat (sint len)) 0)"
    by blast
  then show ?thesis
  proof cases
    case exit
    then show ?thesis by simp
  next
    case return
    then show ?thesis by simp
  qed
qed

lemma example_spellings:
  "\<not> captured ''x'' ''n'' ''long''" "\<not> captured ''x'' ''n'' ''int''"
  "captured ''x'' ''i'' ''long''" "captured ''x'' ''i'' ''int''" "indexable ''x''"
  by code_simp+

text \<open>
  C2. For every element type and every count \<open>n \<ge> 0\<close>, after a \<^verbatim>\<open>CALLOC\<close> that
  returns, the handle owns \<open>n\<close> elements and each is 0, because the macro writes the
  zeros itself. The macro does so for a count spelled \<^verbatim>\<open>n\<close>: on fresh memory holding
  5 everywhere, \<^verbatim>\<open>CALLOC(x, n, long)\<close> with \<open>n = 4\<close> leaves four zeros. It does not for
  a count spelled \<^verbatim>\<open>i\<close>: in \<^verbatim>\<open>CALLOC(x, i, long)\<close> with the caller's \<open>i = 4\<close>, the
  \<^verbatim>\<open>int i\<close> of the macro's block hides the caller's variable, so \<^verbatim>\<open>calloc((i), ...)\<close>
  and \<^verbatim>\<open>(i)>0\<close> read the uninitialised \<^verbatim>\<open>i\<close> and the loop test is \<^verbatim>\<open>i<(i)\<close>: no
  zero is written and the count is not 4. Both builds have this block.
\<close>

theorem C2_count_spelled_i:
  "CALLOC Silent (Grant 0 (\<lambda>k. 5)) ''x'' ''n'' 4 ''long'' (8 :: 64 word)
      (init_state :: (int, 64 word) state)
     = Return \<lparr>vars = (\<lambda>_. None)(''x'' := Some 0), heap = [0 \<mapsto> [0, 0, 0, 0]],
          events = [Libc (Calloc_call 4 8)]\<rparr>
   \<and> CALLOC Silent (Grant 0 (\<lambda>k. 5)) ''x'' ''i'' 4 ''long'' (8 :: 64 word)
      (init_state :: (int, 64 word) state) = Undefined
   \<and> CALLOC (Tracing MY_MALLOC_THRESH) (Grant 0 (\<lambda>k. 5)) ''x'' ''i'' 4 ''long'' (8 :: 64 word)
      (init_state :: (int, 64 word) state) = Undefined"
proof -
  have n: "to_size 4 = (4 :: 64 word)"
    by (simp add: to_size_def)
  have range: "[0..<4] = [0, 1, 2, 3]"
    by (simp add: upt_rec)
  have cmp: "(0 :: c_int) <s 4" "(1 :: c_int) <s 4" "(2 :: c_int) <s 4" "(3 :: c_int) <s 4"
    "\<not> (4 :: c_int) <s 4"
    by (simp_all add: word_sless_alt)
  show ?thesis
    by (simp add: macro_defs step_defs init_state_def Let_def n range cmp example_spellings
        zero_loop.simps store_def)
qed

subsection \<open>Resizing\<close>

text \<open>
  C3, as amended. For a handle that is null or owns a live region \<open>old\<close>, a count
  \<open>len \<ge> 0\<close> whose product with the element size fits \<^verbatim>\<open>size_t\<close>, and an element size
  that is not 0: a \<^verbatim>\<open>REALLOC\<close> that returns leaves the handle owning exactly \<open>len\<close>
  elements, the first \<open>min len (length old)\<close> of them equal to those of \<open>old\<close>.
\<close>

theorem C3_resize_keeps_prefix:
  fixes st :: "('a, 'w::len word) state"
  assumes "0 \<le>s len" and "nat (sint len) * unat sz < 2 ^ LENGTH('w)" and "sz \<noteq> 0"
    and "contents st name = Some old"
    and "REALLOC b r name len_text len type_text sz st = Return st'"
  shows "\<exists>new. contents st' name = Some new \<and> length new = nat (sint len)
           \<and> take (min (nat (sint len)) (length old)) new
               = take (min (nat (sint len)) (length old)) old"
proof -
  have nonneg: "0 \<le> sint len"
    using assms(1) by (simp add: word_sle_eq)
  have m: "elems (byte_size len sz) sz = nat (sint len)"
    using nonneg assms(2,3) by (rule elems_exact)
  define st1 where "st1 = (case b of Silent \<Rightarrow> st | Tracing th \<Rightarrow>
      if th \<le> byte_size len sz
      then emit (trace_line ''REALLOC( '' name len_text len type_text) st else st)"
  obtain p h where lib: "libc_realloc r (vars st name) (byte_size len sz) sz (heap st) = Some (p, h)"
    and st': "st' = assign name p
                 ((libc_event (Realloc_call (vars st name) (byte_size len sz)) st1)\<lparr>heap := h\<rparr>)"
    and ok: "\<not> (p = None \<and> 0 <s len)"
    using assms(5)
    by (cases b)
       (auto simp add: macro_defs st1_def Let_def split: option.splits if_splits)
  show ?thesis
  proof (cases p)
    case None
    then have "sint len = 0"
      using ok nonneg by (simp add: word_sless_alt)
    then show ?thesis
      using None by (simp add: st' contents_def)
  next
    case (Some a)
    show ?thesis
    proof (cases "vars st name")
      case None
      then have "old = []"
        using assms(4) by (simp add: contents_def)
      moreover obtain junk where "r = Moved a junk"
        using lib None Some by (cases r) (auto simp add: libc_realloc_def)
      then have "h a = Some (map junk [0..<nat (sint len)])"
        using lib None m by (auto simp add: libc_realloc_def)
      ultimately show ?thesis
        using Some by (simp add: st' contents_def)
    next
      case (Some a0)
      then have live: "heap st a0 = Some old"
        using assms(4) by (simp add: contents_def)
      obtain junk where "r = Moved a junk"
        using lib Some \<open>p = Some a\<close> live by (cases r) (auto simp add: libc_realloc_def)
      then have "h a = Some (take (nat (sint len)) old @ map junk [length old..<nat (sint len)])"
        using lib Some live m by (auto simp add: libc_realloc_def)
      then show ?thesis
        using \<open>p = Some a\<close> by (simp add: st' contents_def min_def)
    qed
  qed
qed

text \<open>
  The claim as stated, for every count \<open>len \<ge> 0\<close>, fails where the product wraps. With a
  32-bit \<^verbatim>\<open>size_t\<close>, resizing the three \<^verbatim>\<open>int\<close>s of \<open>y\<close> to \<open>2^30 + 1\<close> elements of 4
  bytes asks \<^verbatim>\<open>realloc\<close> for 4 bytes; \<^verbatim>\<open>realloc\<close> grants them, the macro returns, and
  the handle owns one element.
\<close>

theorem C3_counterexample:
  "(0 :: c_int) \<le>s 1073741825
   \<and> contents (three_ints :: (int, 32 word) state) ''y'' = Some [7, 8, 9]
   \<and> (\<exists>st'. REALLOC Silent (Moved 1 (\<lambda>_. 0)) ''y'' ''m'' 1073741825 ''int'' (4 :: 32 word)
              three_ints = Return st'
          \<and> contents st' ''y'' = Some [7])
   \<and> length [7 :: int] \<noteq> nat (sint (1073741825 :: c_int))"
proof -
  have bytes: "byte_size 1073741825 (4 :: 32 word) = 4"
    by (simp add: byte_size_def to_size_def)
  have one: "elems (4 :: 32 word) 4 = 1"
    by (simp add: elems_def)
  have pos: "(0 :: c_int) \<le>s 1073741825" "\<not> (1073741825 :: c_int) \<le>s 0"
    by (simp_all add: word_sle_eq)
  show ?thesis
    by (simp add: macro_defs libc_realloc_def three_ints_def contents_def bytes one pos Let_def)
qed

theorem C3_witness:
  "(0 :: c_int) \<le>s 5 \<and> nat (sint (5 :: c_int)) * unat (4 :: 64 word) < 2 ^ LENGTH(64)
   \<and> (4 :: 64 word) \<noteq> 0
   \<and> contents (three_ints :: (int, 64 word) state) ''y'' = Some [7, 8, 9]
   \<and> (\<exists>st' new. REALLOC Silent (Moved 1 (\<lambda>_. 0)) ''y'' ''m'' 5 ''int'' (4 :: 64 word) three_ints
                 = Return st'
          \<and> contents st' ''y'' = Some new \<and> length new = 5 \<and> take 3 new = [7, 8, 9])"
proof -
  have count: "(0 :: c_int) \<le>s 5"
    by (simp add: word_sle_eq)
  have fits: "nat (sint (5 :: c_int)) * unat (4 :: 64 word) < 2 ^ LENGTH(64)"
    by simp
  have size: "(4 :: 64 word) \<noteq> 0"
    by simp
  have old: "contents (three_ints :: (int, 64 word) state) ''y'' = Some [7, 8, 9]"
    by simp
  have pos: "(0 :: c_int) <s 5"
    by (simp add: word_sless_alt)
  have "\<exists>st'. REALLOC Silent (Moved 1 (\<lambda>_. 0)) ''y'' ''m'' 5 ''int'' (4 :: 64 word)
      (three_ints :: (int, 64 word) state) = Return st'"
    by (simp add: macro_defs libc_realloc_def Let_def pos)
  then obtain st' where run: "REALLOC Silent (Moved 1 (\<lambda>_. 0)) ''y'' ''m'' 5 ''int'' (4 :: 64 word)
      (three_ints :: (int, 64 word) state) = Return st'"
    by blast
  have k: "min 5 (length [7, 8, 9 :: int]) = 3"
    and n: "nat (sint (5 :: c_int)) = 5"
    and front: "take 3 [7, 8, 9 :: int] = [7, 8, 9]"
    by simp_all
  from C3_resize_keeps_prefix [OF count fits size old run]
  have "\<exists>new. contents st' ''y'' = Some new \<and> length new = 5 \<and> take 3 new = [7, 8, 9]"
    unfolding n k front .
  with run count fits size old show ?thesis
    by blast
qed

subsection \<open>A count of zero\<close>

text \<open>
  With a count of 0, \<^verbatim>\<open>MALLOC\<close>, \<^verbatim>\<open>REALLOC\<close>, and \<^verbatim>\<open>CALLOC\<close> with arguments that
  do not name \<^verbatim>\<open>i\<close>, return, whatever the allocator answers, a null pointer included:
  they do not exit, and after the allocator call they print nothing (before it, a tracing
  build prints its trace line if the threshold is 0). The handle is then null or owns a
  region of no elements. \<^verbatim>\<open>REALLOC\<close> is applied to a handle that is null or owns a
  live region.
\<close>

lemma zero_count_returns:
  fixes st :: "('a, 'w::len word) state"
    and stc :: "('c::zero, 'w word) state"
    and str :: "('r, 'w word) state"
  shows "(\<exists>st'. MALLOC b r name len_text 0 type_text sz st = Return st'
            \<and> events st' = events st
                 @ trace_events b 0 (trace_line ''MALLOC(  '' name len_text 0 type_text)
                 @ [Libc (Malloc_call 0)]
            \<and> (vars st' name = None \<or> (\<exists>a. vars st' name = Some a \<and> heap st' a = Some [])))
       \<and> (\<not> captured name len_text type_text \<longrightarrow>
           (\<exists>st'. CALLOC b rc name len_text 0 type_text sz stc = Return st'
            \<and> events st' = events stc
                 @ trace_events b 0 (trace_line ''CALLOC(  '' name len_text 0 type_text)
                 @ [Libc (Calloc_call 0 sz)]
            \<and> (vars st' name = None \<or> (\<exists>a. vars st' name = Some a \<and> heap st' a = Some []))))
       \<and> (contents str name \<noteq> None \<longrightarrow>
           (\<exists>st'. REALLOC b rr name len_text 0 type_text sz str = Return st'
            \<and> events st' = events str
                 @ trace_events b 0 (trace_line ''REALLOC( '' name len_text 0 type_text)
                 @ [Libc (Realloc_call (vars str name) 0)]
            \<and> (vars st' name = None \<or> (\<exists>a. vars st' name = Some a \<and> heap st' a = Some []))))"
proof (intro conjI impI)
  show "\<exists>st'. MALLOC b r name len_text 0 type_text sz st = Return st'
            \<and> events st' = events st
                 @ trace_events b 0 (trace_line ''MALLOC(  '' name len_text 0 type_text)
                 @ [Libc (Malloc_call 0)]
            \<and> (vars st' name = None \<or> (\<exists>a. vars st' name = Some a \<and> heap st' a = Some []))"
    by (cases b; cases r)
       (simp_all add: macro_defs libc_malloc_def trace_events_def Let_def)
next
  assume "\<not> captured name len_text type_text"
  then show "\<exists>st'. CALLOC b rc name len_text 0 type_text sz stc = Return st'
            \<and> events st' = events stc
                 @ trace_events b 0 (trace_line ''CALLOC(  '' name len_text 0 type_text)
                 @ [Libc (Calloc_call 0 sz)]
            \<and> (vars st' name = None \<or> (\<exists>a. vars st' name = Some a \<and> heap st' a = Some []))"
    by (cases b; cases rc)
       (simp_all add: macro_defs libc_calloc_def trace_events_def Let_def zero_loop_skip)
next
  assume "contents str name \<noteq> None"
  then show "\<exists>st'. REALLOC b rr name len_text 0 type_text sz str = Return st'
            \<and> events st' = events str
                 @ trace_events b 0 (trace_line ''REALLOC( '' name len_text 0 type_text)
                 @ [Libc (Realloc_call (vars str name) 0)]
            \<and> (vars st' name = None \<or> (\<exists>a. vars st' name = Some a \<and> heap st' a = Some []))"
    by (cases b; cases rr; cases "vars str name")
       (auto simp add: macro_defs libc_realloc_def trace_events_def contents_def Let_def)
qed

text \<open>
  C4. With a count of 0, no macro prints a failure message or exits, even when the
  allocator returns a null pointer. The macros do this for a count spelled \<^verbatim>\<open>n\<close>:
  \<^verbatim>\<open>CALLOC(x, n, int)\<close> with \<open>n = 0\<close> and \<^verbatim>\<open>calloc\<close> returning a null pointer returns
  with \<open>x\<close> null and nothing printed. \<^verbatim>\<open>CALLOC\<close> does not for a count spelled \<^verbatim>\<open>i\<close>:
  in \<^verbatim>\<open>CALLOC(x, i, int)\<close> with the caller's \<open>i = 0\<close>, the test \<^verbatim>\<open>(i)>0\<close> that guards
  the message and \<^verbatim>\<open>exit(1)\<close> reads the uninitialised \<^verbatim>\<open>int i\<close> of the macro's block,
  not the caller's 0. Both builds have this block.
\<close>

theorem C4_zero_count_spelled_i:
  "CALLOC Silent Refuse ''x'' ''n'' 0 ''int'' (4 :: 64 word) (init_state :: (int, 64 word) state)
     = Return \<lparr>vars = (\<lambda>_. None), heap = Map.empty, events = [Libc (Calloc_call 0 4)]\<rparr>
   \<and> CALLOC Silent Refuse ''x'' ''i'' 0 ''int'' (4 :: 64 word)
      (init_state :: (int, 64 word) state) = Undefined
   \<and> CALLOC (Tracing MY_MALLOC_THRESH) Refuse ''x'' ''i'' 0 ''int'' (4 :: 64 word)
      (init_state :: (int, 64 word) state) = Undefined"
  by (simp add: macro_defs step_defs init_state_def Let_def example_spellings zero_loop_skip)

subsection \<open>Release\<close>

text \<open>
  C5. \<^verbatim>\<open>FREE\<close> of a handle that is null or owns a live region returns with the handle
  null. A second \<^verbatim>\<open>FREE\<close> of the same handle returns too and changes nothing but the
  output of a tracing build, which gains its \<^verbatim>\<open>FREE\<close> line: the handle stays null, the
  heap is the same and \<^verbatim>\<open>free\<close> is not called. \<^verbatim>\<open>FREE\<close> has no failure message
  and never calls \<^verbatim>\<open>exit\<close>.
\<close>

theorem C5_release_idempotent:
  assumes "contents st name \<noteq> None"
  shows "\<exists>st1. FREE b name st = Return st1 \<and> vars st1 name = None
           \<and> FREE b name st1
               = Return (case b of Silent \<Rightarrow> st1 | Tracing th \<Rightarrow> printf (free_line name) st1)"
proof (cases "vars st name")
  case None
  then have "(vars st)(name := None) = vars st"
    by auto
  then show ?thesis
    using None by (cases b) (simp_all add: macro_defs assign_def printf_def Let_def)
next
  case (Some a)
  then have "a \<in> dom (heap st)"
    using assms by (auto simp add: contents_def)
  then show ?thesis
    using Some
    by (cases b) (simp_all add: macro_defs step_defs Let_def)
qed

theorem C5_witness:
  "contents (three_ints :: (int, 64 word) state) ''y'' \<noteq> None
   \<and> (\<exists>st1. FREE (Tracing (1 :: 64 word)) ''y'' (three_ints :: (int, 64 word) state) = Return st1
          \<and> vars st1 ''y'' = None
          \<and> FREE (Tracing 1) ''y'' st1 = Return (printf (free_line ''y'') st1))"
  using C5_release_idempotent [where st = "three_ints :: (int, 64 word) state"
      and name = "''y''" and b = "Tracing 1"]
  by simp

subsection \<open>Tracing\<close>





subsection \<open>Lines of output\<close>













subsection \<open>A negative count\<close>




subsection \<open>The byte size\<close>

text \<open>
  C9. The byte size that \<^verbatim>\<open>MALLOC\<close> passes to \<^verbatim>\<open>malloc\<close> and \<^verbatim>\<open>REALLOC\<close> to
  \<^verbatim>\<open>realloc\<close>, in either build, is \<open>len * sizeof(type)\<close> reduced modulo \<open>2^w\<close>, \<open>w\<close>
  the width of \<^verbatim>\<open>size_t\<close>: it is the one call each macro makes, and no check stands
  before it, so a product that does not fit wraps. (\<^verbatim>\<open>CALLOC\<close> passes no byte size:
  \<^verbatim>\<open>calloc\<close> takes the count and the element size.) \<^verbatim>\<open>REALLOC\<close> is applied to a handle
  that is null or owns a live region.
\<close>

theorem C9_byte_size_wraps:
  fixes st :: "('a, 'w::len word) state"
    and str :: "('r, 'w word) state"
  shows "uint (byte_size len sz) = (sint len * uint sz) mod 2 ^ LENGTH('w)
       \<and> (\<exists>st'. outcome_state (MALLOC b r name len_text len type_text sz st) = Some st'
            \<and> libc_calls (events st') = libc_calls (events st) @ [Malloc_call (byte_size len sz)])
       \<and> (contents str name \<noteq> None \<longrightarrow>
           (\<exists>st'. outcome_state (REALLOC b rr name len_text len type_text sz str) = Some st'
            \<and> libc_calls (events st')
                 = libc_calls (events str) @ [Realloc_call (vars str name) (byte_size len sz)]))"
proof (intro conjI impI)
  show "uint (byte_size len sz) = (sint len * uint sz) mod 2 ^ LENGTH('w)"
    by (rule byte_size_uint)
next
  obtain st' where run: "outcome_state (MALLOC b r name len_text len type_text sz st) = Some st'"
    using MALLOC_defined by blast
  have "libc_calls (events st') = libc_calls (events st) @ [Malloc_call (byte_size len sz)]"
    by (simp add: MALLOC_events [OF run])
  with run show "\<exists>st'. outcome_state (MALLOC b r name len_text len type_text sz st) = Some st'
            \<and> libc_calls (events st') = libc_calls (events st) @ [Malloc_call (byte_size len sz)]"
    by blast
next
  assume "contents str name \<noteq> None"
  then obtain st' where run: "outcome_state (REALLOC b rr name len_text len type_text sz str) = Some st'"
    using REALLOC_defined by blast
  have "libc_calls (events st')
      = libc_calls (events str) @ [Realloc_call (vars str name) (byte_size len sz)]"
    using REALLOC_events [OF run] by auto
  with run show "\<exists>st'. outcome_state (REALLOC b rr name len_text len type_text sz str) = Some st'
            \<and> libc_calls (events st')
                 = libc_calls (events str) @ [Realloc_call (vars str name) (byte_size len sz)]"
    by blast
qed

text \<open>
  On a 32-bit \<^verbatim>\<open>size_t\<close>, \<open>2^30 + 1\<close> elements of 4 bytes are a request for 4 bytes.
\<close>

theorem C9_witness:
  "contents (three_ints :: (int, 32 word) state) ''y'' \<noteq> None
   \<and> uint (byte_size 1073741825 (4 :: 32 word)) = 4
   \<and> (\<exists>st'. outcome_state (REALLOC Silent Fail ''y'' ''n'' 1073741825 ''int'' (4 :: 32 word)
                 (three_ints :: (int, 32 word) state)) = Some st'
          \<and> libc_calls (events st') = [Realloc_call (Some 0) 4])"
proof -
  have bytes: "byte_size 1073741825 (4 :: 32 word) = 4"
    by (simp add: byte_size_def to_size_def)
  show ?thesis
    using C9_byte_size_wraps [where len = 1073741825 and sz = "4 :: 32 word" and b = Silent
        and rr = Fail and name = "''y''" and str = "three_ints :: (int, 32 word) state"
        and st = "init_state :: (int, 32 word) state"]
    by (simp add: bytes)
qed

end
